theory Spec2Isabelle
  imports Main "HOL-Library.Word"
begin

section \<open>Out-of-band template diagnostics (typecheck/src/oob.ts)\<close>

text \<open>
  A shallow embedding of \<^verbatim>\<open>OutOfBandDiagnosticRecorderImpl\<close>: the class is a record of its
  two private fields, every method takes the recorder and returns what it threw (if anything)
  together with the recorder as the call left it, so that a mutation made before a
  \<^verbatim>\<open>throw\<close> would stay visible.
\<close>

subsection \<open>Strings\<close>

text \<open>
  A JavaScript string is a sequence of 16-bit code units. \<open>lit\<close> reads an ASCII literal of
  the source as such a sequence; \<open>sq\<close> is the apostrophe the messages put around a name.
\<close>

type_synonym jschar = "16 word"
type_synonym js_string = "jschar list"

definition lit :: "string \<Rightarrow> js_string" where
  "lit s = map of_char s"

definition sq :: js_string where
  "sq = [0x27]"

text \<open>
  \<^verbatim>\<open>String.prototype.trim\<close> (ECMAScript): strips, at both ends, the code points of
  WhiteSpace (TAB, VT, FF, ZWNBSP and the category Zs) and of LineTerminator (LF, CR, LS, PS).
  All of them are single code units.
\<close>

definition isWhiteSpace :: "jschar \<Rightarrow> bool" where
  "isWhiteSpace c \<longleftrightarrow>
     c \<in> set [0x0009, 0x000B, 0x000C, 0xFEFF,
              0x0020, 0x00A0, 0x1680, 0x2000, 0x2001, 0x2002, 0x2003, 0x2004, 0x2005,
              0x2006, 0x2007, 0x2008, 0x2009, 0x200A, 0x202F, 0x205F, 0x3000,
              0x000A, 0x000D, 0x2028, 0x2029]"

definition trimStart :: "js_string \<Rightarrow> js_string" where
  "trimStart s = dropWhile isWhiteSpace s"

definition trimEnd :: "js_string \<Rightarrow> js_string" where
  "trimEnd s = rev (dropWhile isWhiteSpace (rev s))"

definition trim :: "js_string \<Rightarrow> js_string" where
  "trim s = trimEnd (trimStart s)"

subsection \<open>The template AST and the TypeScript nodes, as far as the recorder reads them\<close>

type_synonym TemplateId = js_string

datatype ParseSourceSpan = ParseSourceSpan nat nat

datatype AbsoluteSourceSpan = AbsoluteSourceSpan nat nat

datatype TemplateSourceMapping = TemplateSourceMapping nat

datatype SourceFile = SourceFile js_string

datatype Node = Node (getSourceFile: SourceFile) nat nat

record TmplAstReference =
  ref_value :: js_string
  ref_sourceSpan :: ParseSourceSpan
  ref_valueSpan :: "ParseSourceSpan option"

record BindingPipe =
  pipe_name :: js_string
  pipe_nameSpan :: AbsoluteSourceSpan

record PropertyWrite =
  write_name :: js_string
  write_sourceSpan :: AbsoluteSourceSpan

record TmplAstVariable =
  var_name :: js_string
  var_sourceSpan :: ParseSourceSpan
  var_valueSpan :: "ParseSourceSpan option"

record ClassDeclaration =
  class_name :: Node

text \<open>
  \<^verbatim>\<open>a || b\<close> on an optional span: an object is always truthy, so the right operand is taken
  exactly when the left one is undefined.
\<close>

definition or_span :: "ParseSourceSpan option \<Rightarrow> ParseSourceSpan \<Rightarrow> ParseSourceSpan" where
  "or_span a b = (case a of Some s \<Rightarrow> s | None \<Rightarrow> b)"

subsection \<open>Diagnostics\<close>

datatype DiagnosticCategory = Warning | Error | Suggestion | Message

datatype ErrorCode =
    MISSING_REFERENCE_TARGET
  | MISSING_PIPE
  | WRITE_TO_READ_ONLY_VARIABLE
  | DUPLICATE_VARIABLE_DECLARATION
  | INLINE_TCB_REQUIRED
  | INLINE_TYPE_CTOR_REQUIRED

text \<open>
  Modelled from the spec: \<^verbatim>\<open>ngErrorCode\<close> (../../diagnostics) is not part of the file; the
  spec only asks for a stable error code, so the number it computes is kept as a tag around
  the \<open>ErrorCode\<close>.
\<close>

datatype DiagnosticCode = ngErrorCode ErrorCode

text \<open>
  Where a diagnostic or an annotation points: a span of a template, read through the
  template's source mapping, or a TypeScript node.
\<close>

datatype Location =
    InTemplate TemplateSourceMapping ParseSourceSpan
  | AtNode Node

record DiagnosticRelatedInformation =
  related_location :: Location
  related_messageText :: js_string

record TemplateDiagnostic =
  category :: DiagnosticCategory
  code :: DiagnosticCode
  location :: Location
  messageText :: js_string
  relatedInformation :: "DiagnosticRelatedInformation list"
  componentFile :: "SourceFile option"
  templateId :: TemplateId

record RelatedMessage =
  msg_text :: js_string
  msg_span :: ParseSourceSpan

text \<open>
  Modelled from the spec: \<^verbatim>\<open>makeTemplateDiagnostic\<close> (../diagnostics) is not part of the
  file. The spec's DiagnosticRecord carries the template identifier, the category, the error
  code, the primary anchor, the message and zero or more secondary annotations, each a
  (message, location) pair; the constructor stores its arguments in these fields, the anchors
  read through the source mapping it is given. The spec names no component file for such a
  record.
\<close>

definition makeTemplateDiagnostic ::
  "TemplateId \<Rightarrow> TemplateSourceMapping \<Rightarrow> ParseSourceSpan \<Rightarrow> DiagnosticCategory \<Rightarrow>
   DiagnosticCode \<Rightarrow> js_string \<Rightarrow> RelatedMessage option \<Rightarrow> TemplateDiagnostic" where
  "makeTemplateDiagnostic tid mapping sp cat c msg relatedMessage =
     \<lparr>category = cat, code = c, location = InTemplate mapping sp, messageText = msg,
      relatedInformation =
        (case relatedMessage of
           None \<Rightarrow> []
         | Some r \<Rightarrow> [\<lparr>related_location = InTemplate mapping (msg_span r),
                       related_messageText = msg_text r\<rparr>]),
      componentFile = None, templateId = tid\<rparr>"

text \<open>
  Modelled from the spec: \<^verbatim>\<open>makeRelatedInformation\<close> and \<^verbatim>\<open>makeDiagnostic\<close>
  (../../diagnostics) are not part of the file. The first pairs a node with a message; the
  second builds an error diagnostic anchored at a node, without the two fields that
  \<open>makeInlineDiagnostic\<close> adds.
\<close>

definition makeRelatedInformation :: "Node \<Rightarrow> js_string \<Rightarrow> DiagnosticRelatedInformation" where
  "makeRelatedInformation node msg = \<lparr>related_location = AtNode node, related_messageText = msg\<rparr>"

record Diagnostic =
  diag_category :: DiagnosticCategory
  diag_code :: DiagnosticCode
  diag_location :: Location
  diag_messageText :: js_string
  diag_relatedInformation :: "DiagnosticRelatedInformation list"

definition makeDiagnostic ::
  "ErrorCode \<Rightarrow> Node \<Rightarrow> js_string \<Rightarrow> DiagnosticRelatedInformation list option \<Rightarrow> Diagnostic" where
  "makeDiagnostic c node msg related =
     \<lparr>diag_category = Error, diag_code = ngErrorCode c, diag_location = AtNode node,
      diag_messageText = msg,
      diag_relatedInformation = (case related of None \<Rightarrow> [] | Some rs \<Rightarrow> rs)\<rparr>"

text \<open>The function at the end of the file: the spread of \<open>makeDiagnostic\<close>, then two fields.\<close>

definition makeInlineDiagnostic ::
  "TemplateId \<Rightarrow> ErrorCode \<Rightarrow> Node \<Rightarrow> js_string \<Rightarrow>
   DiagnosticRelatedInformation list option \<Rightarrow> TemplateDiagnostic" where
  "makeInlineDiagnostic tid c node msg related =
     (let d = makeDiagnostic c node msg related in
      \<lparr>category = diag_category d, code = diag_code d, location = diag_location d,
       messageText = diag_messageText d, relatedInformation = diag_relatedInformation d,
       componentFile = Some (getSourceFile node), templateId = tid\<rparr>)"

subsection \<open>The resolver and the recorder\<close>

datatype thrown = ThrownError js_string

text \<open>
  Modelled from the spec: the interface \<^verbatim>\<open>TemplateSourceResolver\<close> (./diagnostics) is not
  part of the file. \<open>getSourceMapping\<close> must succeed for a registered template and is a
  contract violation otherwise (\<open>Inl\<close>: what it throws); \<open>toParseSourceSpan\<close> returns a span
  or absent (\<open>None\<close>: the source's \<^verbatim>\<open>null\<close>).
\<close>

record TemplateSourceResolver =
  getSourceMapping :: "TemplateId \<Rightarrow> thrown + TemplateSourceMapping"
  toParseSourceSpan :: "TemplateId \<Rightarrow> AbsoluteSourceSpan \<Rightarrow> ParseSourceSpan option"

record Recorder =
  resolver :: TemplateSourceResolver
  private_diagnostics :: "TemplateDiagnostic list"

type_synonym outcome = "(thrown + unit) \<times> Recorder"

definition new_recorder :: "TemplateSourceResolver \<Rightarrow> Recorder" where
  "new_recorder r = \<lparr>resolver = r, private_diagnostics = []\<rparr>"

definition diagnostics :: "Recorder \<Rightarrow> TemplateDiagnostic list" where
  "diagnostics this = private_diagnostics this"

text \<open>\<^verbatim>\<open>this._diagnostics.push(d)\<close> as the last statement of a method.\<close>

definition push :: "Recorder \<Rightarrow> TemplateDiagnostic \<Rightarrow> outcome" where
  "push this d = (Inr (), this\<lparr>private_diagnostics := private_diagnostics this @ [d]\<rparr>)"

definition missingReferenceTarget :: "Recorder \<Rightarrow> TemplateId \<Rightarrow> TmplAstReference \<Rightarrow> outcome" where
  "missingReferenceTarget this tid ref =
     (case getSourceMapping (resolver this) tid of
        Inl e \<Rightarrow> (Inl e, this)
      | Inr mapping \<Rightarrow>
          (let val = trim (ref_value ref);
               errorMsg = lit ''No directive found with exportAs '' @ sq @ val @ lit '''.''
           in push this
                (makeTemplateDiagnostic tid mapping
                   (or_span (ref_valueSpan ref) (ref_sourceSpan ref)) Error
                   (ngErrorCode MISSING_REFERENCE_TARGET) errorMsg None)))"

definition missingPipe :: "Recorder \<Rightarrow> TemplateId \<Rightarrow> BindingPipe \<Rightarrow> outcome" where
  "missingPipe this tid ast =
     (case getSourceMapping (resolver this) tid of
        Inl e \<Rightarrow> (Inl e, this)
      | Inr mapping \<Rightarrow>
          (let errorMsg = lit ''No pipe found with name '' @ sq @ pipe_name ast @ lit '''.''
           in case toParseSourceSpan (resolver this) tid (pipe_nameSpan ast) of
                None \<Rightarrow>
                  (Inl (ThrownError
                      (lit ''Assertion failure: no SourceLocation found for usage of pipe ''
                       @ sq @ pipe_name ast @ lit '''.'')), this)
              | Some sourceSpan \<Rightarrow>
                  push this
                    (makeTemplateDiagnostic tid mapping sourceSpan Error
                       (ngErrorCode MISSING_PIPE) errorMsg None)))"

definition illegalAssignmentToTemplateVar ::
  "Recorder \<Rightarrow> TemplateId \<Rightarrow> PropertyWrite \<Rightarrow> TmplAstVariable \<Rightarrow> outcome" where
  "illegalAssignmentToTemplateVar this tid assignment target =
     (case getSourceMapping (resolver this) tid of
        Inl e \<Rightarrow> (Inl e, this)
      | Inr mapping \<Rightarrow>
          (let errorMsg = lit ''Cannot use variable '' @ sq @ write_name assignment @
                 lit ''' as the left-hand side of an assignment expression. Template variables are read-only.''
           in case toParseSourceSpan (resolver this) tid (write_sourceSpan assignment) of
                None \<Rightarrow>
                  (Inl (ThrownError
                      (lit ''Assertion failure: no SourceLocation found for property binding.'')),
                   this)
              | Some sourceSpan \<Rightarrow>
                  push this
                    (makeTemplateDiagnostic tid mapping sourceSpan Error
                       (ngErrorCode WRITE_TO_READ_ONLY_VARIABLE) errorMsg
                       (Some \<lparr>msg_text = lit ''The variable '' @ write_name assignment @
                                      lit '' is declared here.'',
                              msg_span = or_span (var_valueSpan target) (var_sourceSpan target)\<rparr>))))"

definition duplicateTemplateVar ::
  "Recorder \<Rightarrow> TemplateId \<Rightarrow> TmplAstVariable \<Rightarrow> TmplAstVariable \<Rightarrow> outcome" where
  "duplicateTemplateVar this tid variable firstDecl =
     (case getSourceMapping (resolver this) tid of
        Inl e \<Rightarrow> (Inl e, this)
      | Inr mapping \<Rightarrow>
          (let errorMsg = lit ''Cannot redeclare variable '' @ sq @ var_name variable @
                 lit ''' as it was previously declared elsewhere for the same template.''
           in push this
                (makeTemplateDiagnostic tid mapping (var_sourceSpan variable) Error
                   (ngErrorCode DUPLICATE_VARIABLE_DECLARATION) errorMsg
                   (Some \<lparr>msg_text = lit ''The variable '' @ sq @ var_name firstDecl @
                                  lit ''' was first declared here.'',
                          msg_span = var_sourceSpan firstDecl\<rparr>))))"

definition requiresInlineTcb :: "Recorder \<Rightarrow> TemplateId \<Rightarrow> ClassDeclaration \<Rightarrow> outcome" where
  "requiresInlineTcb this tid node =
     push this
       (makeInlineDiagnostic tid INLINE_TCB_REQUIRED (class_name node)
          (lit ''This component requires inline template type-checking, which is not supported by the current environment.'')
          None)"

definition requiresInlineTypeConstructors ::
  "Recorder \<Rightarrow> TemplateId \<Rightarrow> ClassDeclaration \<Rightarrow> ClassDeclaration list \<Rightarrow> outcome" where
  "requiresInlineTypeConstructors this tid node directives =
     (let message =
            (if length directives > 1
             then lit ''This component uses directives which require inline type constructors, which are not supported by the current environment.''
             else lit ''This component uses a directive which requires an inline type constructor, which is not supported by the current environment.'')
      in push this
           (makeInlineDiagnostic tid INLINE_TYPE_CTOR_REQUIRED (class_name node) message
              (Some (map (\<lambda>dir. makeRelatedInformation (class_name dir)
                                   (lit ''Requires an inline type constructor.''))
                         directives))))"

subsection \<open>A caller\<close>

text \<open>
  The traversal that drives the recorder is not part of the file. To speak about sequences of
  reporting calls, a call is a value and \<open>run\<close> makes the calls of a list one after the other
  on the same recorder, going on after a call that threw (as a caller that catches would) and
  keeping every call's result.
\<close>

datatype call =
    MissingReferenceTarget TemplateId TmplAstReference
  | MissingPipe TemplateId BindingPipe
  | IllegalAssignmentToTemplateVar TemplateId PropertyWrite TmplAstVariable
  | DuplicateTemplateVar TemplateId TmplAstVariable TmplAstVariable
  | RequiresInlineTcb TemplateId ClassDeclaration
  | RequiresInlineTypeConstructors TemplateId ClassDeclaration "ClassDeclaration list"

fun invoke :: "Recorder \<Rightarrow> call \<Rightarrow> outcome" where
  "invoke this (MissingReferenceTarget tid ref) = missingReferenceTarget this tid ref"
| "invoke this (MissingPipe tid ast) = missingPipe this tid ast"
| "invoke this (IllegalAssignmentToTemplateVar tid assignment target) =
     illegalAssignmentToTemplateVar this tid assignment target"
| "invoke this (DuplicateTemplateVar tid variable firstDecl) =
     duplicateTemplateVar this tid variable firstDecl"
| "invoke this (RequiresInlineTcb tid node) = requiresInlineTcb this tid node"
| "invoke this (RequiresInlineTypeConstructors tid node directives) =
     requiresInlineTypeConstructors this tid node directives"

fun run :: "Recorder \<Rightarrow> call list \<Rightarrow> (thrown + unit) list \<times> Recorder" where
  "run this [] = ([], this)"
| "run this (c # cs) =
     (case invoke this c of
        (res, this') \<Rightarrow> (case run this' cs of (ress, this'') \<Rightarrow> (res # ress, this'')))"

definition succeeded :: "thrown + unit \<Rightarrow> bool" where
  "succeeded res = (case res of Inl e \<Rightarrow> False | Inr u \<Rightarrow> True)"

subsection \<open>Sample inputs\<close>

text \<open>
  A resolver that knows every template and maps every span but the empty one at offset 0,
  a resolver that maps the same spans but knows no template, and samples of the entities the
  operations read.
\<close>

definition sample_resolver :: TemplateSourceResolver where
  "sample_resolver =
     \<lparr>getSourceMapping = (\<lambda>tid. Inr (TemplateSourceMapping 1)),
      toParseSourceSpan =
        (\<lambda>tid sp. if sp = AbsoluteSourceSpan 0 0 then None else Some (ParseSourceSpan 10 20))\<rparr>"

definition sample_templateId :: TemplateId where
  "sample_templateId = lit ''tpl''"

definition sample_failing_resolver :: TemplateSourceResolver where
  "sample_failing_resolver =
     \<lparr>getSourceMapping = (\<lambda>tid. Inl (ThrownError (lit ''unknown template''))),
      toParseSourceSpan =
        (\<lambda>tid sp. if sp = AbsoluteSourceSpan 0 0 then None else Some (ParseSourceSpan 10 20))\<rparr>"

definition sample_reference :: TmplAstReference where
  "sample_reference =
     \<lparr>ref_value = lit ''  foo  '', ref_sourceSpan = ParseSourceSpan 3 14, ref_valueSpan = None\<rparr>"

definition sample_pipe :: BindingPipe where
  "sample_pipe = \<lparr>pipe_name = lit ''currency'', pipe_nameSpan = AbsoluteSourceSpan 12 20\<rparr>"

definition sample_unmapped_pipe :: BindingPipe where
  "sample_unmapped_pipe =
     \<lparr>pipe_name = lit ''currency'', pipe_nameSpan = AbsoluteSourceSpan 0 0\<rparr>"

definition sample_write :: PropertyWrite where
  "sample_write = \<lparr>write_name = lit ''x'', write_sourceSpan = AbsoluteSourceSpan 4 9\<rparr>"

definition sample_unmapped_write :: PropertyWrite where
  "sample_unmapped_write = \<lparr>write_name = lit ''x'', write_sourceSpan = AbsoluteSourceSpan 0 0\<rparr>"

definition sample_variable :: TmplAstVariable where
  "sample_variable =
     \<lparr>var_name = lit ''item'', var_sourceSpan = ParseSourceSpan 30 40,
      var_valueSpan = Some (ParseSourceSpan 35 40)\<rparr>"

definition sample_first_variable :: TmplAstVariable where
  "sample_first_variable =
     \<lparr>var_name = lit ''item'', var_sourceSpan = ParseSourceSpan 5 15, var_valueSpan = None\<rparr>"

definition sample_class :: ClassDeclaration where
  "sample_class = \<lparr>class_name = Node (SourceFile (lit ''cmp.ts'')) 100 3\<rparr>"

definition sample_directive :: ClassDeclaration where
  "sample_directive = \<lparr>class_name = Node (SourceFile (lit ''dir.ts'')) 50 3\<rparr>"

definition sample_calls :: "call list" where
  "sample_calls =
     [RequiresInlineTcb sample_templateId sample_class,
      MissingReferenceTarget sample_templateId sample_reference,
      DuplicateTemplateVar sample_templateId sample_variable sample_first_variable]"

section \<open>Properties\<close>

subsection \<open>What \<open>trim\<close> removes\<close>

lemma trimEnd_split: "trimEnd t @ rev (takeWhile isWhiteSpace (rev t)) = t"
  unfolding trimEnd_def by (metis rev_append rev_rev_ident takeWhile_dropWhile_id)

lemma trim_decomp:
  "\<exists>l r. s = l @ trim s @ r \<and> list_all isWhiteSpace l \<and> list_all isWhiteSpace r"
proof -
  let ?l = "takeWhile isWhiteSpace s"
  let ?r = "rev (takeWhile isWhiteSpace (rev (trimStart s)))"
  have "s = ?l @ trimStart s" by (simp add: trimStart_def)
  also have "trimStart s = trim s @ ?r" by (simp add: trim_def trimEnd_split)
  finally have "s = ?l @ trim s @ ?r" .
  moreover have "list_all isWhiteSpace ?l"
    by (simp add: list_all_iff) (meson set_takeWhileD)
  moreover have "list_all isWhiteSpace ?r"
    by (simp add: list_all_iff) (meson set_takeWhileD)
  ultimately show ?thesis by blast
qed

lemma trim_last: "trim s \<noteq> [] \<Longrightarrow> \<not> isWhiteSpace (last (trim s))"
  by (simp add: trim_def trimEnd_def trimStart_def last_rev hd_dropWhile)

lemma trim_hd: "trim s \<noteq> [] \<Longrightarrow> \<not> isWhiteSpace (hd (trim s))"
proof -
  assume ne: "trim s \<noteq> []"
  have b: "trimStart s = trim s @ rev (takeWhile isWhiteSpace (rev (trimStart s)))"
    by (simp add: trim_def trimEnd_split)
  with ne have "hd (trimStart s) = hd (trim s)" by (metis hd_append2)
  moreover from b ne have "trimStart s \<noteq> []" by auto
  ultimately show ?thesis unfolding trimStart_def by (metis hd_dropWhile)
qed

subsection \<open>The operations, unfolded\<close>

lemmas op_defs =
  missingReferenceTarget_def missingPipe_def illegalAssignmentToTemplateVar_def
  duplicateTemplateVar_def requiresInlineTcb_def requiresInlineTypeConstructors_def
  push_def makeTemplateDiagnostic_def makeInlineDiagnostic_def makeDiagnostic_def
  makeRelatedInformation_def or_span_def diagnostics_def

subsection \<open>Missing reference target\<close>

text \<open>
  C5. When the resolver knows the template, \<open>missingReferenceTarget\<close> appends one record whose
  message is \<^verbatim>\<open>No directive found with exportAs '<v>'.\<close>, with \<open>v\<close> the trimmed value of
  the reference, and whose anchor is the value span of the reference when it has one and its
  full span otherwise. The trimmed value is the raw value without a leading and a trailing
  run of white space: everything between the two runs is kept as it is, and the trimmed
  value neither starts nor ends with white space.
\<close>

theorem missingReferenceTarget_record:
  assumes "getSourceMapping (resolver this) tid = Inr mapping"
  shows "missingReferenceTarget this tid ref =
     (Inr (), this\<lparr>private_diagnostics := private_diagnostics this @
        [\<lparr>category = Error, code = ngErrorCode MISSING_REFERENCE_TARGET,
          location = InTemplate mapping
            (case ref_valueSpan ref of Some s \<Rightarrow> s | None \<Rightarrow> ref_sourceSpan ref),
          messageText = lit ''No directive found with exportAs '' @ sq @
                        trim (ref_value ref) @ lit '''.'',
          relatedInformation = [], componentFile = None, templateId = tid\<rparr>]\<rparr>)
   \<and> (\<exists>l r. ref_value ref = l @ trim (ref_value ref) @ r \<and>
             list_all isWhiteSpace l \<and> list_all isWhiteSpace r)
   \<and> (trim (ref_value ref) = [] \<or>
       \<not> isWhiteSpace (hd (trim (ref_value ref))) \<and>
       \<not> isWhiteSpace (last (trim (ref_value ref))))"
proof -
  have "missingReferenceTarget this tid ref =
     (Inr (), this\<lparr>private_diagnostics := private_diagnostics this @
        [\<lparr>category = Error, code = ngErrorCode MISSING_REFERENCE_TARGET,
          location = InTemplate mapping
            (case ref_valueSpan ref of Some s \<Rightarrow> s | None \<Rightarrow> ref_sourceSpan ref),
          messageText = lit ''No directive found with exportAs '' @ sq @
                        trim (ref_value ref) @ lit '''.'',
          relatedInformation = [], componentFile = None, templateId = tid\<rparr>]\<rparr>)"
    using assms by (simp add: op_defs)
  moreover note trim_decomp [of "ref_value ref"]
  moreover have "trim (ref_value ref) = [] \<or>
       \<not> isWhiteSpace (hd (trim (ref_value ref))) \<and>
       \<not> isWhiteSpace (last (trim (ref_value ref)))"
    using trim_hd trim_last by blast
  ultimately show ?thesis by blast
qed

theorem missingReferenceTarget_record_witness:
  "getSourceMapping (resolver (new_recorder sample_resolver)) sample_templateId
     = Inr (TemplateSourceMapping 1)
   \<and> messageText (last (diagnostics (snd
        (missingReferenceTarget (new_recorder sample_resolver) sample_templateId
           sample_reference))))
       = lit ''No directive found with exportAs 'foo'.''
   \<and> location (last (diagnostics (snd
        (missingReferenceTarget (new_recorder sample_resolver) sample_templateId
           sample_reference))))
       = InTemplate (TemplateSourceMapping 1) (ParseSourceSpan 3 14)"
proof -
  have h: "getSourceMapping (resolver (new_recorder sample_resolver)) sample_templateId
             = Inr (TemplateSourceMapping 1)"
    by (simp add: new_recorder_def sample_resolver_def)
  have t: "trim (ref_value sample_reference) = lit ''foo''"
    by (simp add: sample_reference_def trim_def trimEnd_def trimStart_def lit_def
        isWhiteSpace_def)
  have v: "ref_valueSpan sample_reference = None"
    "ref_sourceSpan sample_reference = ParseSourceSpan 3 14"
    by (simp_all add: sample_reference_def)
  note r = missingReferenceTarget_record [OF h, of sample_reference, THEN conjunct1]
  show ?thesis
    unfolding r using h by (simp add: t v diagnostics_def lit_def sq_def)
qed

subsection \<open>Inline type-check block required\<close>

text \<open>
  C9. \<open>requiresInlineTcb\<close> appends one record with one and the same message for every
  template identifier and every class, anchored at the name node of the class. It makes no
  call to the resolver: it returns normally and appends the same record whatever resolver
  the recorder holds, also one whose operations fail.
\<close>

theorem requiresInlineTcb_record:
  "requiresInlineTcb this tid node =
     (Inr (), this\<lparr>private_diagnostics := private_diagnostics this @
        [\<lparr>category = Error, code = ngErrorCode INLINE_TCB_REQUIRED,
          location = AtNode (class_name node),
          messageText = lit ''This component requires inline template type-checking, which is not supported by the current environment.'',
          relatedInformation = [],
          componentFile = Some (getSourceFile (class_name node)), templateId = tid\<rparr>]\<rparr>)
   \<and> fst (requiresInlineTcb (this\<lparr>resolver := r\<rparr>) tid node) = Inr ()
   \<and> diagnostics (snd (requiresInlineTcb (this\<lparr>resolver := r\<rparr>) tid node)) =
       diagnostics (snd (requiresInlineTcb this tid node))"
  by (simp add: op_defs)

subsection \<open>Unmappable spans are fatal\<close>

text \<open>
  C1. When the resolver knows the template, \<open>missingPipe\<close> throws its assertion failure
  exactly when \<open>toParseSourceSpan\<close> returns absent for the name span of the pipe, and returns
  normally exactly when it returns a span; the same holds for
  \<open>illegalAssignmentToTemplateVar\<close> and the span of the assignment. On every call,
  whatever the resolver does: an absent translation means that the call does not return
  normally; the call returns normally exactly when \<open>getSourceMapping\<close> succeeds and the
  span is mapped; when \<open>getSourceMapping\<close> throws, the call throws the same error; and
  whenever the call does not return normally, the recorder, and so its list of diagnostics,
  is as it was before the call.
\<close>

theorem fatal_iff_absent:
  "(getSourceMapping (resolver this) tid = Inr mapping \<longrightarrow>
      (fst (missingPipe this tid ast) =
         Inl (ThrownError (lit ''Assertion failure: no SourceLocation found for usage of pipe ''
                           @ sq @ pipe_name ast @ lit '''.''))
       \<longleftrightarrow> toParseSourceSpan (resolver this) tid (pipe_nameSpan ast) = None)
    \<and> (succeeded (fst (missingPipe this tid ast))
       \<longleftrightarrow> toParseSourceSpan (resolver this) tid (pipe_nameSpan ast) \<noteq> None)
    \<and> (fst (illegalAssignmentToTemplateVar this tid assignment target) =
         Inl (ThrownError (lit ''Assertion failure: no SourceLocation found for property binding.''))
       \<longleftrightarrow> toParseSourceSpan (resolver this) tid (write_sourceSpan assignment) = None)
    \<and> (succeeded (fst (illegalAssignmentToTemplateVar this tid assignment target))
       \<longleftrightarrow> toParseSourceSpan (resolver this) tid (write_sourceSpan assignment) \<noteq> None))
   \<and> (toParseSourceSpan (resolver this) tid (pipe_nameSpan ast) = None \<longrightarrow>
        \<not> succeeded (fst (missingPipe this tid ast)))
   \<and> (toParseSourceSpan (resolver this) tid (write_sourceSpan assignment) = None \<longrightarrow>
        \<not> succeeded (fst (illegalAssignmentToTemplateVar this tid assignment target)))
   \<and> (succeeded (fst (missingPipe this tid ast)) \<longleftrightarrow>
        (\<exists>m. getSourceMapping (resolver this) tid = Inr m) \<and>
        toParseSourceSpan (resolver this) tid (pipe_nameSpan ast) \<noteq> None)
   \<and> (succeeded (fst (illegalAssignmentToTemplateVar this tid assignment target)) \<longleftrightarrow>
        (\<exists>m. getSourceMapping (resolver this) tid = Inr m) \<and>
        toParseSourceSpan (resolver this) tid (write_sourceSpan assignment) \<noteq> None)
   \<and> (getSourceMapping (resolver this) tid = Inl e \<longrightarrow>
        fst (missingPipe this tid ast) = Inl e \<and>
        fst (illegalAssignmentToTemplateVar this tid assignment target) = Inl e)
   \<and> (\<not> succeeded (fst (missingPipe this tid ast)) \<longrightarrow>
        snd (missingPipe this tid ast) = this)
   \<and> (\<not> succeeded (fst (illegalAssignmentToTemplateVar this tid assignment target)) \<longrightarrow>
        snd (illegalAssignmentToTemplateVar this tid assignment target) = this)"
proof -
  have a: "getSourceMapping (resolver this) tid = Inr mapping \<longrightarrow>
      (fst (missingPipe this tid ast) =
         Inl (ThrownError (lit ''Assertion failure: no SourceLocation found for usage of pipe ''
                           @ sq @ pipe_name ast @ lit '''.''))
       \<longleftrightarrow> toParseSourceSpan (resolver this) tid (pipe_nameSpan ast) = None)
    \<and> (succeeded (fst (missingPipe this tid ast))
       \<longleftrightarrow> toParseSourceSpan (resolver this) tid (pipe_nameSpan ast) \<noteq> None)"
    by (auto simp: missingPipe_def push_def succeeded_def split: option.splits)
  have b: "getSourceMapping (resolver this) tid = Inr mapping \<longrightarrow>
      (fst (illegalAssignmentToTemplateVar this tid assignment target) =
         Inl (ThrownError (lit ''Assertion failure: no SourceLocation found for property binding.''))
       \<longleftrightarrow> toParseSourceSpan (resolver this) tid (write_sourceSpan assignment) = None)
    \<and> (succeeded (fst (illegalAssignmentToTemplateVar this tid assignment target))
       \<longleftrightarrow> toParseSourceSpan (resolver this) tid (write_sourceSpan assignment) \<noteq> None)"
    by (auto simp: illegalAssignmentToTemplateVar_def push_def succeeded_def split: option.splits)
  have c: "\<not> succeeded (fst (missingPipe this tid ast)) \<longrightarrow>
        snd (missingPipe this tid ast) = this"
    by (auto simp: missingPipe_def push_def succeeded_def split: option.splits sum.splits)
  have d: "\<not> succeeded (fst (illegalAssignmentToTemplateVar this tid assignment target)) \<longrightarrow>
        snd (illegalAssignmentToTemplateVar this tid assignment target) = this"
    by (auto simp: illegalAssignmentToTemplateVar_def push_def succeeded_def
        split: option.splits sum.splits)
  have f: "succeeded (fst (missingPipe this tid ast)) \<longleftrightarrow>
        (\<exists>m. getSourceMapping (resolver this) tid = Inr m) \<and>
        toParseSourceSpan (resolver this) tid (pipe_nameSpan ast) \<noteq> None"
    by (auto simp: missingPipe_def push_def succeeded_def split: option.splits sum.splits)
  have g: "succeeded (fst (illegalAssignmentToTemplateVar this tid assignment target)) \<longleftrightarrow>
        (\<exists>m. getSourceMapping (resolver this) tid = Inr m) \<and>
        toParseSourceSpan (resolver this) tid (write_sourceSpan assignment) \<noteq> None"
    by (auto simp: illegalAssignmentToTemplateVar_def push_def succeeded_def
        split: option.splits sum.splits)
  have h: "getSourceMapping (resolver this) tid = Inl e \<longrightarrow>
        fst (missingPipe this tid ast) = Inl e \<and>
        fst (illegalAssignmentToTemplateVar this tid assignment target) = Inl e"
    by (simp add: missingPipe_def illegalAssignmentToTemplateVar_def)
  from f have i: "toParseSourceSpan (resolver this) tid (pipe_nameSpan ast) = None \<longrightarrow>
        \<not> succeeded (fst (missingPipe this tid ast))" by blast
  from g have j: "toParseSourceSpan (resolver this) tid (write_sourceSpan assignment) = None \<longrightarrow>
        \<not> succeeded (fst (illegalAssignmentToTemplateVar this tid assignment target))" by blast
  from a b c d f g h i j show ?thesis by blast
qed

theorem fatal_iff_absent_witness:
  "getSourceMapping (resolver (new_recorder sample_resolver)) sample_templateId
     = Inr (TemplateSourceMapping 1)
   \<and> toParseSourceSpan (resolver (new_recorder sample_resolver)) sample_templateId
       (pipe_nameSpan sample_unmapped_pipe) = None
   \<and> fst (missingPipe (new_recorder sample_resolver) sample_templateId sample_unmapped_pipe) =
       Inl (ThrownError (lit ''Assertion failure: no SourceLocation found for usage of pipe 'currency'.''))
   \<and> diagnostics (snd (missingPipe (new_recorder sample_resolver) sample_templateId sample_unmapped_pipe)) = []
   \<and> toParseSourceSpan (resolver (new_recorder sample_resolver)) sample_templateId
       (write_sourceSpan sample_write) = Some (ParseSourceSpan 10 20)
   \<and> succeeded (fst (illegalAssignmentToTemplateVar (new_recorder sample_resolver)
        sample_templateId sample_write sample_variable))
   \<and> getSourceMapping (resolver (new_recorder sample_failing_resolver)) sample_templateId
       = Inl (ThrownError (lit ''unknown template''))
   \<and> toParseSourceSpan (resolver (new_recorder sample_failing_resolver)) sample_templateId
       (write_sourceSpan sample_unmapped_write) = None
   \<and> fst (illegalAssignmentToTemplateVar (new_recorder sample_failing_resolver)
        sample_templateId sample_unmapped_write sample_variable)
       = Inl (ThrownError (lit ''unknown template''))
   \<and> diagnostics (snd (illegalAssignmentToTemplateVar (new_recorder sample_failing_resolver)
        sample_templateId sample_unmapped_write sample_variable)) = []"
proof -
  have h: "getSourceMapping (resolver (new_recorder sample_resolver)) sample_templateId
             = Inr (TemplateSourceMapping 1)"
    by (simp add: new_recorder_def sample_resolver_def)
  have p: "toParseSourceSpan (resolver (new_recorder sample_resolver)) sample_templateId
       (pipe_nameSpan sample_unmapped_pipe) = None"
    by (simp add: new_recorder_def sample_resolver_def sample_unmapped_pipe_def)
  have w: "toParseSourceSpan (resolver (new_recorder sample_resolver)) sample_templateId
       (write_sourceSpan sample_write) = Some (ParseSourceSpan 10 20)"
    by (simp add: new_recorder_def sample_resolver_def sample_write_def)
  have n: "pipe_name sample_unmapped_pipe = lit ''currency''"
    by (simp add: sample_unmapped_pipe_def)
  note r = fatal_iff_absent [of "new_recorder sample_resolver" sample_templateId
      "TemplateSourceMapping 1" sample_unmapped_pipe sample_write sample_variable]
  from r h p have e: "fst (missingPipe (new_recorder sample_resolver) sample_templateId sample_unmapped_pipe) =
       Inl (ThrownError (lit ''Assertion failure: no SourceLocation found for usage of pipe ''
                           @ sq @ pipe_name sample_unmapped_pipe @ lit '''.''))"
    by blast
  from r p have "\<not> succeeded (fst (missingPipe (new_recorder sample_resolver) sample_templateId sample_unmapped_pipe))"
    by blast
  with r have u: "snd (missingPipe (new_recorder sample_resolver) sample_templateId sample_unmapped_pipe)
      = new_recorder sample_resolver" by blast
  from r h w have s: "succeeded (fst (illegalAssignmentToTemplateVar (new_recorder sample_resolver)
        sample_templateId sample_write sample_variable))" by simp
  have l: "lit ''Assertion failure: no SourceLocation found for usage of pipe ''
                           @ sq @ lit ''currency'' @ lit '''.'' =
     lit ''Assertion failure: no SourceLocation found for usage of pipe 'currency'.''"
    by (simp add: lit_def sq_def)
  have hf: "getSourceMapping (resolver (new_recorder sample_failing_resolver)) sample_templateId
       = Inl (ThrownError (lit ''unknown template''))"
    by (simp add: new_recorder_def sample_failing_resolver_def)
  have pf: "toParseSourceSpan (resolver (new_recorder sample_failing_resolver)) sample_templateId
       (write_sourceSpan sample_unmapped_write) = None"
    by (simp add: new_recorder_def sample_failing_resolver_def sample_unmapped_write_def)
  note rf = fatal_iff_absent [of "new_recorder sample_failing_resolver" sample_templateId
      "TemplateSourceMapping 1" sample_unmapped_pipe sample_unmapped_write sample_variable
      "ThrownError (lit ''unknown template'')"]
  from rf hf have ef: "fst (illegalAssignmentToTemplateVar (new_recorder sample_failing_resolver)
        sample_templateId sample_unmapped_write sample_variable)
       = Inl (ThrownError (lit ''unknown template''))" by blast
  from rf pf have "\<not> succeeded (fst (illegalAssignmentToTemplateVar
        (new_recorder sample_failing_resolver) sample_templateId sample_unmapped_write
        sample_variable))" by blast
  with rf have uf: "snd (illegalAssignmentToTemplateVar (new_recorder sample_failing_resolver)
        sample_templateId sample_unmapped_write sample_variable)
      = new_recorder sample_failing_resolver" by blast
  have a: "fst (missingPipe (new_recorder sample_resolver) sample_templateId sample_unmapped_pipe) =
       Inl (ThrownError (lit ''Assertion failure: no SourceLocation found for usage of pipe 'currency'.''))"
    using e unfolding n l .
  have b: "diagnostics (snd (missingPipe (new_recorder sample_resolver) sample_templateId
        sample_unmapped_pipe)) = []"
    unfolding u by (simp add: diagnostics_def new_recorder_def)
  have c: "diagnostics (snd (illegalAssignmentToTemplateVar (new_recorder sample_failing_resolver)
        sample_templateId sample_unmapped_write sample_variable)) = []"
    unfolding uf by (simp add: diagnostics_def new_recorder_def)
  from h p a b w s hf pf ef c show ?thesis by blast
qed

text \<open>
  Without the assumption on \<open>getSourceMapping\<close> the equivalence fails: with a resolver that
  does not know the template but would map the name span, \<open>missingPipe\<close> throws (the
  resolver's error, not the assertion failure) although the translation is not absent.
\<close>

theorem fatal_iff_absent_counterexample:
  "toParseSourceSpan (resolver (new_recorder sample_failing_resolver)) sample_templateId
       (pipe_nameSpan sample_pipe) = Some (ParseSourceSpan 10 20)
   \<and> fst (missingPipe (new_recorder sample_failing_resolver) sample_templateId sample_pipe)
       = Inl (ThrownError (lit ''unknown template''))
   \<and> \<not> succeeded (fst (missingPipe (new_recorder sample_failing_resolver) sample_templateId
          sample_pipe))"
  by (simp add: missingPipe_def new_recorder_def sample_failing_resolver_def sample_pipe_def
      succeeded_def)

subsection \<open>The operations that never throw\<close>

text \<open>
  C4. \<open>missingReferenceTarget\<close> and \<open>duplicateTemplateVar\<close> return normally and append
  exactly one record whenever \<open>getSourceMapping\<close> succeeds for the template;
  \<open>requiresInlineTcb\<close> and \<open>requiresInlineTypeConstructors\<close> do so on every input.
\<close>

theorem reporting_never_raises:
  "(getSourceMapping (resolver this) tid = Inr mapping \<longrightarrow>
      fst (missingReferenceTarget this tid ref) = Inr ()
      \<and> (\<exists>d. diagnostics (snd (missingReferenceTarget this tid ref)) = diagnostics this @ [d])
      \<and> fst (duplicateTemplateVar this tid variable firstDecl) = Inr ()
      \<and> (\<exists>d. diagnostics (snd (duplicateTemplateVar this tid variable firstDecl)) =
               diagnostics this @ [d]))
   \<and> fst (requiresInlineTcb this tid node) = Inr ()
   \<and> (\<exists>d. diagnostics (snd (requiresInlineTcb this tid node)) = diagnostics this @ [d])
   \<and> fst (requiresInlineTypeConstructors this tid node directives) = Inr ()
   \<and> (\<exists>d. diagnostics (snd (requiresInlineTypeConstructors this tid node directives)) =
            diagnostics this @ [d])"
proof -
  have a: "getSourceMapping (resolver this) tid = Inr mapping \<longrightarrow>
      fst (missingReferenceTarget this tid ref) = Inr ()
      \<and> (\<exists>d. diagnostics (snd (missingReferenceTarget this tid ref)) = diagnostics this @ [d])"
    by (simp add: missingReferenceTarget_def push_def diagnostics_def)
  have b: "getSourceMapping (resolver this) tid = Inr mapping \<longrightarrow>
      fst (duplicateTemplateVar this tid variable firstDecl) = Inr ()
      \<and> (\<exists>d. diagnostics (snd (duplicateTemplateVar this tid variable firstDecl)) =
               diagnostics this @ [d])"
    by (simp add: duplicateTemplateVar_def push_def diagnostics_def)
  have c: "fst (requiresInlineTcb this tid node) = Inr ()
      \<and> (\<exists>d. diagnostics (snd (requiresInlineTcb this tid node)) = diagnostics this @ [d])"
    by (simp add: requiresInlineTcb_def push_def diagnostics_def)
  have d: "fst (requiresInlineTypeConstructors this tid node directives) = Inr ()
      \<and> (\<exists>d. diagnostics (snd (requiresInlineTypeConstructors this tid node directives)) =
            diagnostics this @ [d])"
    by (simp add: requiresInlineTypeConstructors_def push_def diagnostics_def Let_def)
  from a b c d show ?thesis by blast
qed

theorem reporting_never_raises_witness:
  "getSourceMapping (resolver (new_recorder sample_resolver)) sample_templateId
     = Inr (TemplateSourceMapping 1)
   \<and> fst (missingReferenceTarget (new_recorder sample_resolver) sample_templateId
            sample_reference) = Inr ()
   \<and> length (diagnostics (snd (missingReferenceTarget (new_recorder sample_resolver)
            sample_templateId sample_reference))) = 1
   \<and> fst (duplicateTemplateVar (new_recorder sample_resolver) sample_templateId
            sample_variable sample_first_variable) = Inr ()
   \<and> length (diagnostics (snd (duplicateTemplateVar (new_recorder sample_resolver)
            sample_templateId sample_variable sample_first_variable))) = 1"
proof -
  have h: "getSourceMapping (resolver (new_recorder sample_resolver)) sample_templateId
             = Inr (TemplateSourceMapping 1)"
    by (simp add: new_recorder_def sample_resolver_def)
  have e: "diagnostics (new_recorder sample_resolver) = []"
    by (simp add: diagnostics_def new_recorder_def)
  note r = reporting_never_raises [of "new_recorder sample_resolver" sample_templateId
      "TemplateSourceMapping 1" sample_reference sample_variable sample_first_variable
      sample_class "[]"]
  from r h have
    "fst (missingReferenceTarget (new_recorder sample_resolver) sample_templateId
            sample_reference) = Inr ()"
    "\<exists>d. diagnostics (snd (missingReferenceTarget (new_recorder sample_resolver)
            sample_templateId sample_reference)) = diagnostics (new_recorder sample_resolver) @ [d]"
    "fst (duplicateTemplateVar (new_recorder sample_resolver) sample_templateId
            sample_variable sample_first_variable) = Inr ()"
    "\<exists>d. diagnostics (snd (duplicateTemplateVar (new_recorder sample_resolver)
            sample_templateId sample_variable sample_first_variable)) =
         diagnostics (new_recorder sample_resolver) @ [d]"
    by blast+
  with h show ?thesis unfolding e by auto
qed

subsection \<open>Illegal assignment to a template variable\<close>

text \<open>
  The only way \<open>illegalAssignmentToTemplateVar\<close> changes the list of diagnostics: the
  resolver knows the template and maps the span of the assignment, and the record below is
  appended.
\<close>

lemma illegalAssignment_appended:
  assumes "diagnostics (snd (illegalAssignmentToTemplateVar this tid assignment target))
             \<noteq> diagnostics this"
  shows "\<exists>mapping sourceSpan.
     getSourceMapping (resolver this) tid = Inr mapping \<and>
     toParseSourceSpan (resolver this) tid (write_sourceSpan assignment) = Some sourceSpan \<and>
     illegalAssignmentToTemplateVar this tid assignment target =
       (Inr (), this\<lparr>private_diagnostics := private_diagnostics this @
          [\<lparr>category = Error, code = ngErrorCode WRITE_TO_READ_ONLY_VARIABLE,
            location = InTemplate mapping sourceSpan,
            messageText = lit ''Cannot use variable '' @ sq @ write_name assignment @
              lit ''' as the left-hand side of an assignment expression. Template variables are read-only.'',
            relatedInformation =
              [\<lparr>related_location = InTemplate mapping
                   (case var_valueSpan target of Some s \<Rightarrow> s | None \<Rightarrow> var_sourceSpan target),
                 related_messageText = lit ''The variable '' @ write_name assignment @
                   lit '' is declared here.''\<rparr>],
            componentFile = None, templateId = tid\<rparr>]\<rparr>)"
proof (cases "getSourceMapping (resolver this) tid")
  case (Inl e)
  with assms show ?thesis by (simp add: illegalAssignmentToTemplateVar_def)
next
  case (Inr mapping)
  show ?thesis
  proof (cases "toParseSourceSpan (resolver this) tid (write_sourceSpan assignment)")
    case None
    with Inr assms show ?thesis by (simp add: illegalAssignmentToTemplateVar_def)
  next
    case (Some sourceSpan)
    with Inr show ?thesis by (simp add: op_defs)
  qed
qed

lemma sample_write_appends:
  "diagnostics (snd (illegalAssignmentToTemplateVar (new_recorder sample_resolver)
      sample_templateId sample_write target)) \<noteq> diagnostics (new_recorder sample_resolver)"
  by (simp add: illegalAssignmentToTemplateVar_def push_def diagnostics_def new_recorder_def
      sample_resolver_def sample_write_def)

text \<open>
  C6. Every record appended by \<open>illegalAssignmentToTemplateVar\<close> carries exactly one secondary
  annotation, anchored (in the template's source mapping) at the value span of the target
  variable when it has one and at its declaration span otherwise.
\<close>

theorem illegalAssignment_one_annotation:
  assumes "diagnostics (snd (illegalAssignmentToTemplateVar this tid assignment target))
             \<noteq> diagnostics this"
  shows "\<exists>d a mapping.
     diagnostics (snd (illegalAssignmentToTemplateVar this tid assignment target)) =
       diagnostics this @ [d] \<and>
     relatedInformation d = [a] \<and>
     getSourceMapping (resolver this) tid = Inr mapping \<and>
     related_location a = InTemplate mapping
       (case var_valueSpan target of Some s \<Rightarrow> s | None \<Rightarrow> var_sourceSpan target)"
proof -
  from illegalAssignment_appended [OF assms] obtain mapping sourceSpan d where
    m: "getSourceMapping (resolver this) tid = Inr mapping" and
    r: "illegalAssignmentToTemplateVar this tid assignment target =
       (Inr (), this\<lparr>private_diagnostics := private_diagnostics this @ [d]\<rparr>)" and
    d: "d = \<lparr>category = Error, code = ngErrorCode WRITE_TO_READ_ONLY_VARIABLE,
            location = InTemplate mapping sourceSpan,
            messageText = lit ''Cannot use variable '' @ sq @ write_name assignment @
              lit ''' as the left-hand side of an assignment expression. Template variables are read-only.'',
            relatedInformation =
              [\<lparr>related_location = InTemplate mapping
                   (case var_valueSpan target of Some s \<Rightarrow> s | None \<Rightarrow> var_sourceSpan target),
                 related_messageText = lit ''The variable '' @ write_name assignment @
                   lit '' is declared here.''\<rparr>],
            componentFile = None, templateId = tid\<rparr>"
    by blast
  show ?thesis unfolding r using m by (simp add: diagnostics_def d)
qed

theorem illegalAssignment_one_annotation_witness:
  "map related_location (relatedInformation (last (diagnostics (snd
      (illegalAssignmentToTemplateVar (new_recorder sample_resolver) sample_templateId
         sample_write sample_variable)))))
     = [InTemplate (TemplateSourceMapping 1) (ParseSourceSpan 35 40)]
   \<and> map related_location (relatedInformation (last (diagnostics (snd
      (illegalAssignmentToTemplateVar (new_recorder sample_resolver) sample_templateId
         sample_write sample_first_variable)))))
     = [InTemplate (TemplateSourceMapping 1) (ParseSourceSpan 5 15)]"
proof -
  have h: "getSourceMapping (resolver (new_recorder sample_resolver)) sample_templateId
             = Inr (TemplateSourceMapping 1)"
    by (simp add: new_recorder_def sample_resolver_def)
  have v: "var_valueSpan sample_variable = Some (ParseSourceSpan 35 40)"
    "var_valueSpan sample_first_variable = None"
    "var_sourceSpan sample_first_variable = ParseSourceSpan 5 15"
    by (simp_all add: sample_variable_def sample_first_variable_def)
  from illegalAssignment_one_annotation [OF sample_write_appends, of sample_variable] h
  have a: "map related_location (relatedInformation (last (diagnostics (snd
      (illegalAssignmentToTemplateVar (new_recorder sample_resolver) sample_templateId
         sample_write sample_variable)))))
     = [InTemplate (TemplateSourceMapping 1) (ParseSourceSpan 35 40)]"
    by (auto simp: v)
  from illegalAssignment_one_annotation [OF sample_write_appends, of sample_first_variable] h
  have b: "map related_location (relatedInformation (last (diagnostics (snd
      (illegalAssignmentToTemplateVar (new_recorder sample_resolver) sample_templateId
         sample_write sample_first_variable)))))
     = [InTemplate (TemplateSourceMapping 1) (ParseSourceSpan 5 15)]"
    by (auto simp: v)
  from a b show ?thesis by blast
qed

text \<open>
  C10. The text of that annotation is \<^verbatim>\<open>The variable <n> is declared here.\<close> with \<open>n\<close> the
  name written in the assignment expression, without quotes; the name of the target variable
  does not occur in it. The sample assigns to \<open>x\<close> with a target variable named \<open>item\<close>.
\<close>

theorem illegalAssignment_annotation_text:
  assumes "diagnostics (snd (illegalAssignmentToTemplateVar this tid assignment target))
             \<noteq> diagnostics this"
  shows "\<exists>d a.
     diagnostics (snd (illegalAssignmentToTemplateVar this tid assignment target)) =
       diagnostics this @ [d] \<and>
     relatedInformation d = [a] \<and>
     related_messageText a =
       lit ''The variable '' @ write_name assignment @ lit '' is declared here.''"
proof -
  from illegalAssignment_appended [OF assms] obtain mapping sourceSpan d where
    r: "illegalAssignmentToTemplateVar this tid assignment target =
       (Inr (), this\<lparr>private_diagnostics := private_diagnostics this @ [d]\<rparr>)" and
    d: "d = \<lparr>category = Error, code = ngErrorCode WRITE_TO_READ_ONLY_VARIABLE,
            location = InTemplate mapping sourceSpan,
            messageText = lit ''Cannot use variable '' @ sq @ write_name assignment @
              lit ''' as the left-hand side of an assignment expression. Template variables are read-only.'',
            relatedInformation =
              [\<lparr>related_location = InTemplate mapping
                   (case var_valueSpan target of Some s \<Rightarrow> s | None \<Rightarrow> var_sourceSpan target),
                 related_messageText = lit ''The variable '' @ write_name assignment @
                   lit '' is declared here.''\<rparr>],
            componentFile = None, templateId = tid\<rparr>"
    by blast
  show ?thesis unfolding r by (simp add: diagnostics_def d)
qed

theorem illegalAssignment_annotation_text_witness:
  "write_name sample_write \<noteq> var_name sample_variable
   \<and> map related_messageText (relatedInformation (last (diagnostics (snd
      (illegalAssignmentToTemplateVar (new_recorder sample_resolver) sample_templateId
         sample_write sample_variable)))))
     = [lit ''The variable x is declared here.'']"
proof -
  have n: "write_name sample_write \<noteq> var_name sample_variable"
    by (simp add: sample_write_def sample_variable_def lit_def)
  have l: "lit ''The variable '' @ write_name sample_write @ lit '' is declared here.''
            = lit ''The variable x is declared here.''"
    by (simp add: sample_write_def lit_def)
  from illegalAssignment_annotation_text [OF sample_write_appends, of sample_variable]
  have "map related_messageText (relatedInformation (last (diagnostics (snd
      (illegalAssignmentToTemplateVar (new_recorder sample_resolver) sample_templateId
         sample_write sample_variable)))))
     = [lit ''The variable '' @ write_name sample_write @ lit '' is declared here.'']"
    by auto
  with n show ?thesis unfolding l by blast
qed

subsection \<open>Duplicate template variable\<close>

text \<open>
  C7. When the resolver knows the template, \<open>duplicateTemplateVar\<close> appends one record with
  the message \<^verbatim>\<open>Cannot redeclare variable '<name>' as it was previously declared elsewhere for
  the same template.\<close>, anchored at the variable's own declaration span, with exactly one
  secondary annotation at the first declaration's own span and the text
  \<^verbatim>\<open>The variable '<first name>' was first declared here.\<close>. Neither span goes through
  \<open>toParseSourceSpan\<close>: the outcome is the same whatever that operation of the resolver is.
\<close>

theorem duplicateTemplateVar_record:
  assumes "getSourceMapping (resolver this) tid = Inr mapping"
  shows "duplicateTemplateVar this tid variable firstDecl =
     (Inr (), this\<lparr>private_diagnostics := private_diagnostics this @
        [\<lparr>category = Error, code = ngErrorCode DUPLICATE_VARIABLE_DECLARATION,
          location = InTemplate mapping (var_sourceSpan variable),
          messageText = lit ''Cannot redeclare variable '' @ sq @ var_name variable @
            lit ''' as it was previously declared elsewhere for the same template.'',
          relatedInformation =
            [\<lparr>related_location = InTemplate mapping (var_sourceSpan firstDecl),
               related_messageText = lit ''The variable '' @ sq @ var_name firstDecl @
                 lit ''' was first declared here.''\<rparr>],
          componentFile = None, templateId = tid\<rparr>]\<rparr>)
   \<and> fst (duplicateTemplateVar (this\<lparr>resolver := (resolver this)\<lparr>toParseSourceSpan := g\<rparr>\<rparr>)
          tid variable firstDecl) = Inr ()
   \<and> diagnostics (snd (duplicateTemplateVar
          (this\<lparr>resolver := (resolver this)\<lparr>toParseSourceSpan := g\<rparr>\<rparr>) tid variable firstDecl)) =
       diagnostics (snd (duplicateTemplateVar this tid variable firstDecl))"
  using assms by (simp add: op_defs)

theorem duplicateTemplateVar_record_witness:
  "getSourceMapping (resolver (new_recorder sample_resolver)) sample_templateId
     = Inr (TemplateSourceMapping 1)
   \<and> diagnostics (snd (duplicateTemplateVar (new_recorder sample_resolver) sample_templateId
        sample_variable sample_first_variable)) =
      [\<lparr>category = Error, code = ngErrorCode DUPLICATE_VARIABLE_DECLARATION,
        location = InTemplate (TemplateSourceMapping 1) (ParseSourceSpan 30 40),
        messageText = lit ''Cannot redeclare variable 'item' as it was previously declared elsewhere for the same template.'',
        relatedInformation =
          [\<lparr>related_location = InTemplate (TemplateSourceMapping 1) (ParseSourceSpan 5 15),
             related_messageText = lit ''The variable 'item' was first declared here.''\<rparr>],
        componentFile = None, templateId = sample_templateId\<rparr>]"
proof -
  have h: "getSourceMapping (resolver (new_recorder sample_resolver)) sample_templateId
             = Inr (TemplateSourceMapping 1)"
    by (simp add: new_recorder_def sample_resolver_def)
  note r = duplicateTemplateVar_record [OF h, of sample_variable sample_first_variable,
      THEN conjunct1]
  have e: "private_diagnostics (new_recorder sample_resolver) = []"
    by (simp add: new_recorder_def)
  show ?thesis
    unfolding r using h
    by (simp add: e diagnostics_def sample_variable_def sample_first_variable_def lit_def sq_def)
qed

subsection \<open>The template identifier of a record\<close>

text \<open>
  C8. Whenever one of the six operations appends to the list of diagnostics, it appends one
  record, and the template identifier of that record is the one passed to the call. (The
  two inline operations always append.)
\<close>

theorem templateId_of_appended:
  "(diagnostics (snd (missingReferenceTarget this tid ref)) \<noteq> diagnostics this \<longrightarrow>
      (\<exists>d. diagnostics (snd (missingReferenceTarget this tid ref)) = diagnostics this @ [d]
           \<and> templateId d = tid))
   \<and> (diagnostics (snd (missingPipe this tid ast)) \<noteq> diagnostics this \<longrightarrow>
      (\<exists>d. diagnostics (snd (missingPipe this tid ast)) = diagnostics this @ [d]
           \<and> templateId d = tid))
   \<and> (diagnostics (snd (illegalAssignmentToTemplateVar this tid assignment target))
        \<noteq> diagnostics this \<longrightarrow>
      (\<exists>d. diagnostics (snd (illegalAssignmentToTemplateVar this tid assignment target)) =
             diagnostics this @ [d]
           \<and> templateId d = tid))
   \<and> (diagnostics (snd (duplicateTemplateVar this tid variable firstDecl)) \<noteq> diagnostics this \<longrightarrow>
      (\<exists>d. diagnostics (snd (duplicateTemplateVar this tid variable firstDecl)) =
             diagnostics this @ [d]
           \<and> templateId d = tid))
   \<and> (\<exists>d. diagnostics (snd (requiresInlineTcb this tid node)) = diagnostics this @ [d]
           \<and> templateId d = tid)
   \<and> (\<exists>d. diagnostics (snd (requiresInlineTypeConstructors this tid node directives)) =
             diagnostics this @ [d]
           \<and> templateId d = tid)"
proof -
  have a: "diagnostics (snd (missingReferenceTarget this tid ref)) \<noteq> diagnostics this \<longrightarrow>
      (\<exists>d. diagnostics (snd (missingReferenceTarget this tid ref)) = diagnostics this @ [d]
           \<and> templateId d = tid)"
    by (simp add: op_defs split: sum.splits)
  have b: "diagnostics (snd (missingPipe this tid ast)) \<noteq> diagnostics this \<longrightarrow>
      (\<exists>d. diagnostics (snd (missingPipe this tid ast)) = diagnostics this @ [d]
           \<and> templateId d = tid)"
    by (simp add: op_defs split: sum.splits option.splits)
  have c: "diagnostics (snd (illegalAssignmentToTemplateVar this tid assignment target))
        \<noteq> diagnostics this \<longrightarrow>
      (\<exists>d. diagnostics (snd (illegalAssignmentToTemplateVar this tid assignment target)) =
             diagnostics this @ [d]
           \<and> templateId d = tid)"
    by (simp add: op_defs split: sum.splits option.splits)
  have d: "diagnostics (snd (duplicateTemplateVar this tid variable firstDecl)) \<noteq> diagnostics this \<longrightarrow>
      (\<exists>d. diagnostics (snd (duplicateTemplateVar this tid variable firstDecl)) =
             diagnostics this @ [d]
           \<and> templateId d = tid)"
    by (simp add: op_defs split: sum.splits)
  have e: "\<exists>d. diagnostics (snd (requiresInlineTcb this tid node)) = diagnostics this @ [d]
           \<and> templateId d = tid"
    by (simp add: op_defs)
  have f: "\<exists>d. diagnostics (snd (requiresInlineTypeConstructors this tid node directives)) =
             diagnostics this @ [d]
           \<and> templateId d = tid"
    by (simp add: op_defs Let_def)
  from a b c d e f show ?thesis by blast
qed

theorem templateId_of_appended_witness:
  "templateId (last (diagnostics (snd (missingReferenceTarget (new_recorder sample_resolver)
      sample_templateId sample_reference)))) = sample_templateId
   \<and> templateId (last (diagnostics (snd (missingPipe (new_recorder sample_resolver)
      sample_templateId sample_pipe)))) = sample_templateId
   \<and> templateId (last (diagnostics (snd (illegalAssignmentToTemplateVar
      (new_recorder sample_resolver) sample_templateId sample_write sample_variable))))
      = sample_templateId
   \<and> templateId (last (diagnostics (snd (duplicateTemplateVar (new_recorder sample_resolver)
      sample_templateId sample_variable sample_first_variable)))) = sample_templateId"
proof -
  have a: "diagnostics (snd (missingReferenceTarget (new_recorder sample_resolver)
      sample_templateId sample_reference)) \<noteq> diagnostics (new_recorder sample_resolver)"
    by (simp add: missingReferenceTarget_def push_def diagnostics_def new_recorder_def
        sample_resolver_def)
  have b: "diagnostics (snd (missingPipe (new_recorder sample_resolver)
      sample_templateId sample_pipe)) \<noteq> diagnostics (new_recorder sample_resolver)"
    by (simp add: missingPipe_def push_def diagnostics_def new_recorder_def
        sample_resolver_def sample_pipe_def)
  have d: "diagnostics (snd (duplicateTemplateVar (new_recorder sample_resolver)
      sample_templateId sample_variable sample_first_variable))
      \<noteq> diagnostics (new_recorder sample_resolver)"
    by (simp add: duplicateTemplateVar_def push_def diagnostics_def new_recorder_def
        sample_resolver_def)
  note r = templateId_of_appended [of "new_recorder sample_resolver" sample_templateId
      sample_reference sample_pipe sample_write sample_variable sample_variable
      sample_first_variable sample_class "[]"]
  from r a b d sample_write_appends [of sample_variable] show ?thesis by auto
qed

subsection \<open>Inline type constructors required\<close>

text \<open>
  C3. \<open>requiresInlineTypeConstructors\<close> appends one record whose message is the plural
  wording when the list of directives has more than one element and the singular wording
  otherwise, so also for the empty list; the record carries one secondary annotation per
  directive, in the order of the list, each at the name node of that directive with the text
  \<^verbatim>\<open>Requires an inline type constructor.\<close>.
\<close>

theorem requiresInlineTypeConstructors_record:
  "requiresInlineTypeConstructors this tid node directives =
     (Inr (), this\<lparr>private_diagnostics := private_diagnostics this @
        [\<lparr>category = Error, code = ngErrorCode INLINE_TYPE_CTOR_REQUIRED,
          location = AtNode (class_name node),
          messageText =
            (if length directives > 1
             then lit ''This component uses directives which require inline type constructors, which are not supported by the current environment.''
             else lit ''This component uses a directive which requires an inline type constructor, which is not supported by the current environment.''),
          relatedInformation =
            map (\<lambda>dir. \<lparr>related_location = AtNode (class_name dir),
                         related_messageText = lit ''Requires an inline type constructor.''\<rparr>)
                directives,
          componentFile = Some (getSourceFile (class_name node)), templateId = tid\<rparr>]\<rparr>)"
  by (simp add: op_defs Let_def)

text \<open>
  For the empty list, which does not have exactly one element, the message is the singular
  wording and not the plural one.
\<close>

theorem requiresInlineTypeConstructors_empty_counterexample:
  "length ([] :: ClassDeclaration list) \<noteq> 1
   \<and> messageText (last (diagnostics (snd
        (requiresInlineTypeConstructors (new_recorder sample_resolver) sample_templateId
           sample_class []))))
      = lit ''This component uses a directive which requires an inline type constructor, which is not supported by the current environment.''
   \<and> messageText (last (diagnostics (snd
        (requiresInlineTypeConstructors (new_recorder sample_resolver) sample_templateId
           sample_class []))))
      \<noteq> lit ''This component uses directives which require inline type constructors, which are not supported by the current environment.''"
  by (simp add: op_defs Let_def lit_def)

subsection \<open>The list of diagnostics only grows at its end\<close>

text \<open>
  A call either returns normally and appends one record, or does not return normally and
  leaves the recorder as it was.
\<close>

lemma invoke_cases:
  "(succeeded (fst (invoke this c)) \<and>
      (\<exists>d. diagnostics (snd (invoke this c)) = diagnostics this @ [d]))
   \<or> (\<not> succeeded (fst (invoke this c)) \<and> snd (invoke this c) = this)"
  by (cases c)
    (simp_all add: missingReferenceTarget_def missingPipe_def illegalAssignmentToTemplateVar_def
      duplicateTemplateVar_def requiresInlineTcb_def requiresInlineTypeConstructors_def
      push_def diagnostics_def succeeded_def Let_def split: sum.splits option.splits)

lemma run_Cons:
  "run this (c # cs) =
     (fst (invoke this c) # fst (run (snd (invoke this c)) cs),
      snd (run (snd (invoke this c)) cs))"
  by (simp split: prod.splits)

lemma run_results: "length (fst (run this cs)) = length cs"
  by (induction cs arbitrary: this) (simp_all add: run_Cons del: run.simps(2))

lemma run_length:
  "length (diagnostics (snd (run this cs))) =
     length (diagnostics this) + length (filter succeeded (fst (run this cs)))"
proof (induction cs arbitrary: this)
  case Nil
  show ?case by simp
next
  case (Cons c cs)
  from invoke_cases [of this c]
  have "length (diagnostics (snd (invoke this c))) =
          length (diagnostics this) + (if succeeded (fst (invoke this c)) then 1 else 0)"
    by auto
  with Cons.IH [of "snd (invoke this c)"] show ?case
    by (simp add: run_Cons del: run.simps(2))
qed

lemma run_append:
  "run this (cs @ cs') =
     (fst (run this cs) @ fst (run (snd (run this cs)) cs'), snd (run (snd (run this cs)) cs'))"
  by (induction cs arbitrary: this) (simp_all add: run_Cons del: run.simps(2))

lemma run_extends: "\<exists>ds. diagnostics (snd (run this cs)) = diagnostics this @ ds"
proof (induction cs arbitrary: this)
  case Nil
  show ?case by simp
next
  case (Cons c cs)
  from Cons.IH [of "snd (invoke this c)"] obtain ds where
    "diagnostics (snd (run (snd (invoke this c)) cs)) = diagnostics (snd (invoke this c)) @ ds"
    by blast
  moreover from invoke_cases [of this c] obtain ds' where
    "diagnostics (snd (invoke this c)) = diagnostics this @ ds'" by auto
  ultimately show ?case by (simp add: run_Cons del: run.simps(2))
qed

text \<open>
  C2. A new recorder has no diagnostics. After any sequence of calls on a new recorder the
  list has one record per call that returned normally, so exactly \<open>N\<close> records after \<open>N\<close>
  calls that all returned normally; a further call that returns normally puts one record at
  the end; and the list as it was after any initial part of the calls is an initial segment
  of the list after all of them, so records stay where they were appended, in call order.
\<close>

theorem diagnostics_append_only:
  "diagnostics (new_recorder r) = []
   \<and> length (fst (run (new_recorder r) cs)) = length cs
   \<and> length (diagnostics (snd (run (new_recorder r) cs))) =
       length (filter succeeded (fst (run (new_recorder r) cs)))
   \<and> (list_all succeeded (fst (run (new_recorder r) cs)) \<longrightarrow>
        length (diagnostics (snd (run (new_recorder r) cs))) = length cs)
   \<and> (succeeded (fst (invoke (snd (run (new_recorder r) cs)) c)) \<longrightarrow>
        (\<exists>d. diagnostics (snd (run (new_recorder r) (cs @ [c]))) =
               diagnostics (snd (run (new_recorder r) cs)) @ [d]))
   \<and> take (length (diagnostics (snd (run (new_recorder r) cs))))
          (diagnostics (snd (run (new_recorder r) (cs @ cs')))) =
       diagnostics (snd (run (new_recorder r) cs))"
proof -
  have e: "diagnostics (new_recorder r) = []"
    by (simp add: diagnostics_def new_recorder_def)
  have n: "length (diagnostics (snd (run (new_recorder r) cs))) =
       length (filter succeeded (fst (run (new_recorder r) cs)))"
    using run_length [of "new_recorder r" cs] by (simp add: e)
  have a: "list_all succeeded (fst (run (new_recorder r) cs)) \<longrightarrow>
        length (diagnostics (snd (run (new_recorder r) cs))) = length cs"
  proof
    assume "list_all succeeded (fst (run (new_recorder r) cs))"
    then have "filter succeeded (fst (run (new_recorder r) cs)) = fst (run (new_recorder r) cs)"
      by (simp add: list_all_iff)
    with n show "length (diagnostics (snd (run (new_recorder r) cs))) = length cs"
      by (simp add: run_results)
  qed
  from run_extends [of "snd (run (new_recorder r) cs)" cs'] obtain ds where
    "diagnostics (snd (run (new_recorder r) (cs @ cs'))) =
       diagnostics (snd (run (new_recorder r) cs)) @ ds"
    by (auto simp: run_append)
  then have p: "take (length (diagnostics (snd (run (new_recorder r) cs))))
          (diagnostics (snd (run (new_recorder r) (cs @ cs')))) =
       diagnostics (snd (run (new_recorder r) cs))"
    by simp
  have q: "succeeded (fst (invoke (snd (run (new_recorder r) cs)) c)) \<longrightarrow>
        (\<exists>d. diagnostics (snd (run (new_recorder r) (cs @ [c]))) =
               diagnostics (snd (run (new_recorder r) cs)) @ [d])"
    using invoke_cases [of "snd (run (new_recorder r) cs)" c]
    by (auto simp: run_append run_Cons simp del: run.simps(2))
  from e n a q p show ?thesis by (simp add: run_results)
qed

theorem diagnostics_append_only_witness:
  "list_all succeeded (fst (run (new_recorder sample_resolver) sample_calls))
   \<and> length (diagnostics (snd (run (new_recorder sample_resolver) sample_calls))) = 3
   \<and> map code (diagnostics (snd (run (new_recorder sample_resolver) sample_calls))) =
       [ngErrorCode INLINE_TCB_REQUIRED, ngErrorCode MISSING_REFERENCE_TARGET,
        ngErrorCode DUPLICATE_VARIABLE_DECLARATION]
   \<and> succeeded (fst (invoke (snd (run (new_recorder sample_resolver) sample_calls))
         (RequiresInlineTcb sample_templateId sample_class)))
   \<and> length (diagnostics (snd (run (new_recorder sample_resolver)
         (sample_calls @ [RequiresInlineTcb sample_templateId sample_class])))) = 4"
proof -
  have s: "list_all succeeded (fst (run (new_recorder sample_resolver) sample_calls))"
    by (simp add: sample_calls_def op_defs new_recorder_def sample_resolver_def succeeded_def)
  have c: "map code (diagnostics (snd (run (new_recorder sample_resolver) sample_calls))) =
       [ngErrorCode INLINE_TCB_REQUIRED, ngErrorCode MISSING_REFERENCE_TARGET,
        ngErrorCode DUPLICATE_VARIABLE_DECLARATION]"
    by (simp add: sample_calls_def op_defs new_recorder_def sample_resolver_def)
  have l: "length sample_calls = 3" by (simp add: sample_calls_def)
  have i: "succeeded (fst (invoke (snd (run (new_recorder sample_resolver) sample_calls))
         (RequiresInlineTcb sample_templateId sample_class)))"
    by (simp add: requiresInlineTcb_def push_def succeeded_def)
  note r = diagnostics_append_only [of sample_resolver sample_calls
      "RequiresInlineTcb sample_templateId sample_class" "[]"]
  from r s have n: "length (diagnostics (snd (run (new_recorder sample_resolver) sample_calls))) = 3"
    unfolding l by blast
  from r i obtain d where
    "diagnostics (snd (run (new_recorder sample_resolver)
         (sample_calls @ [RequiresInlineTcb sample_templateId sample_class]))) =
       diagnostics (snd (run (new_recorder sample_resolver) sample_calls)) @ [d]"
    by blast
  with n have "length (diagnostics (snd (run (new_recorder sample_resolver)
         (sample_calls @ [RequiresInlineTcb sample_templateId sample_class])))) = 4"
    by simp
  with s n c i show ?thesis by blast
qed

end
